theory Spec2Isabelle
  imports Complex_Main "HOL-Library.Multiset" "HOL-Library.Char_ord" "HOL-Library.List_Lexorder"
begin

section \<open>Data model\<close>

text \<open>
  \<^verbatim>\<open>sea_turtles.py\<close> loads one CSV file into a pandas DataFrame and derives four tables
  from it, one per chart. The embedding follows the semantics of pandas 2.x.

  A cell of the frame is a number, a string or the missing value. \<open>Num q\<close> stands for the
  finite double (or the int64) whose value is \<open>q\<close>; a cell is never an infinity, and
  the rounding of floating-point sums is not modelled (means are exact). \<open>NaN\<close> is the missing value
  that \<^verbatim>\<open>read_csv\<close> leaves for an empty field; \<open>Str ''NA''\<close> is the marker that
  \<^verbatim>\<open>fillna("NA")\<close> puts in its place.
\<close>

datatype cell = Num rat | Str string | NaN

text \<open>The columns the program and its specification name.\<close>

record row =
  date_year :: cell
  waterBody :: cell
  country :: cell
  decimalLatitude :: cell
  decimalLongitude :: cell
  sst :: cell
  sss :: cell

text \<open>
  A frame is the list of its rows, in order. The row labels of a frame matter in
  \<^verbatim>\<open>load_data\<close> only, where the frame comes from \<^verbatim>\<open>read_csv\<close> and the label of a row is
  its position.
\<close>

type_synonym dataframe = "row list"

text \<open>The Python exceptions that the modelled lines can raise.\<close>

datatype error = KeyError | TypeError | IndexError | ValueError

fun bind_e :: "error + 'a \<Rightarrow> ('a \<Rightarrow> error + 'b) \<Rightarrow> error + 'b" where
  "bind_e (Inl e) f = Inl e"
| "bind_e (Inr x) f = f x"

fun collect :: "(error + 'a) list \<Rightarrow> error + 'a list" where
  "collect [] = Inr []"
| "collect (x # xs) = bind_e x (\<lambda>v. bind_e (collect xs) (\<lambda>vs. Inr (v # vs)))"

fun isna :: "cell \<Rightarrow> bool" where
  "isna NaN = True"
| "isna _ = False"

fun is_str :: "cell \<Rightarrow> bool" where
  "is_str (Str s) = True"
| "is_str _ = False"

fun is_number :: "cell \<Rightarrow> bool" where
  "is_number (Num q) = True"
| "is_number _ = False"

fun num_of :: "cell \<Rightarrow> rat option" where
  "num_of (Num q) = Some q"
| "num_of _ = None"

text \<open>
  The order in which pandas sorts group keys (\<^verbatim>\<open>safe_sort\<close>): numbers by value, before
  strings by code point, before missing values.
\<close>

instantiation cell :: linorder
begin

fun less_eq_cell :: "cell \<Rightarrow> cell \<Rightarrow> bool" where
  "less_eq_cell (Num a) (Num b) = (a \<le> b)"
| "less_eq_cell (Num a) (Str t) = True"
| "less_eq_cell (Num a) NaN = True"
| "less_eq_cell (Str s) (Num b) = False"
| "less_eq_cell (Str s) (Str t) = (s \<le> t)"
| "less_eq_cell (Str s) NaN = True"
| "less_eq_cell NaN (Num b) = False"
| "less_eq_cell NaN (Str t) = False"
| "less_eq_cell NaN NaN = True"

definition less_cell :: "cell \<Rightarrow> cell \<Rightarrow> bool" where
  "less_cell a b = (a \<le> b \<and> \<not> b \<le> a)"

instance
proof
  fix x y z :: cell
  show "(x < y) = (x \<le> y \<and> \<not> y \<le> x)"
    by (simp add: less_cell_def)
  show "x \<le> x"
    by (cases x) simp_all
  show "x \<le> y \<Longrightarrow> y \<le> z \<Longrightarrow> x \<le> z"
    by (cases x; cases y; cases z) auto
  show "x \<le> y \<Longrightarrow> y \<le> x \<Longrightarrow> x = y"
    by (cases x; cases y) auto
  show "x \<le> y \<or> y \<le> x"
    by (cases x; cases y) auto
qed

end

section \<open>The pandas operations the program calls\<close>

text \<open>\<^verbatim>\<open>Series.dropna()\<close>: the values that are not missing, in order.\<close>

definition dropna :: "cell list \<Rightarrow> cell list" where
  "dropna col = filter (\<lambda>c. \<not> isna c) col"

text \<open>\<^verbatim>\<open>DataFrame.fillna("NA")\<close>: every missing cell becomes the string \<^verbatim>\<open>"NA"\<close>.\<close>

definition fillna_cell :: "cell \<Rightarrow> cell" where
  "fillna_cell c = (if isna c then Str ''NA'' else c)"

definition fillna_row :: "row \<Rightarrow> row" where
  "fillna_row r =
     \<lparr>date_year = fillna_cell (date_year r), waterBody = fillna_cell (waterBody r),
      country = fillna_cell (country r), decimalLatitude = fillna_cell (decimalLatitude r),
      decimalLongitude = fillna_cell (decimalLongitude r), sst = fillna_cell (sst r),
      sss = fillna_cell (sss r)\<rparr>"

definition fillna :: "dataframe \<Rightarrow> dataframe" where
  "fillna df = map fillna_row df"

text \<open>
  \<^verbatim>\<open>df[name]\<close>: the column of that name; a name that is no column raises \<^verbatim>\<open>KeyError\<close>.
\<close>

definition column :: "string \<Rightarrow> (row \<Rightarrow> cell) option" where
  "column name =
     map_of [(''date_year'', date_year), (''waterBody'', waterBody), (''country'', country),
             (''decimalLatitude'', decimalLatitude), (''decimalLongitude'', decimalLongitude),
             (''sst'', sst), (''sss'', sss)] name"

text \<open>
  \<^verbatim>\<open>col >= y\<close> for a number \<open>y\<close>, as a comparison of a Series and inside
  \<^verbatim>\<open>DataFrame.query\<close>. A missing value compares false. A column that holds a string has
  dtype object and is compared element by element in Python, where a string against a
  number raises \<^verbatim>\<open>TypeError\<close>.
\<close>

fun cell_ge :: "cell \<Rightarrow> rat \<Rightarrow> bool" where
  "cell_ge (Num q) y = (y \<le> q)"
| "cell_ge _ y = False"

definition ge_scalar :: "cell list \<Rightarrow> rat \<Rightarrow> error + bool list" where
  "ge_scalar col y =
     (if \<exists>c \<in> set col. is_str c then Inl TypeError else Inr (map (\<lambda>c. cell_ge c y) col))"

text \<open>\<^verbatim>\<open>df[mask]\<close> and the row selection of \<^verbatim>\<open>query\<close>: the rows at which the mask is true.\<close>

definition mask_rows :: "bool list \<Rightarrow> 'a list \<Rightarrow> 'a list" where
  "mask_rows m rows = map snd (filter fst (zip m rows))"

text \<open>
  The keys of \<^verbatim>\<open>groupby\<close> (with its defaults \<^verbatim>\<open>sort=True, dropna=True\<close>): the distinct
  values of the column that are not missing, sorted.
\<close>

definition groupby_keys :: "cell list \<Rightarrow> cell list" where
  "groupby_keys col = sort (remdups (dropna col))"

text \<open>
  \<^verbatim>\<open>sort_values(ascending=False)\<close> on the counts, which both \<^verbatim>\<open>value_counts\<close> end with.
  Its default algorithm is numpy's quicksort, which promises a rearrangement in
  descending order and nothing about the order of equal counts. The sort is therefore a
  parameter \<open>srt\<close> of the model, and \<open>desc_sort\<close> is what pandas documents of it.
\<close>

type_synonym counts = "(cell \<times> nat) list"

definition desc_sort :: "(counts \<Rightarrow> counts) \<Rightarrow> bool" where
  "desc_sort srt =
     (\<forall>t. mset (srt t) = mset t \<and> sorted_wrt (\<lambda>a b. snd b \<le> snd a) (srt t))"

text \<open>
  One sort that meets it: pandas' \<^verbatim>\<open>nargsort\<close> (reverse, sort ascending, reverse) over a
  stable algorithm, which leaves equal counts in the order they came in.
\<close>

definition sort_desc_stable :: "counts \<Rightarrow> counts" where
  "sort_desc_stable t = rev (sort_key snd (rev t))"

text \<open>
  \<^verbatim>\<open>DataFrame.value_counts(["date_year"])\<close>: the size of every group of \<^verbatim>\<open>groupby\<close>,
  sorted by descending size.
\<close>

definition value_counts_frame :: "(counts \<Rightarrow> counts) \<Rightarrow> cell list \<Rightarrow> counts" where
  "value_counts_frame srt col = srt (map (\<lambda>k. (k, count_list col k)) (groupby_keys col))"

text \<open>
  \<^verbatim>\<open>Series.value_counts()\<close>: the values that are not missing are counted by a hash table,
  which lists them in the order of their first occurrence; the counts are then sorted
  by descending count.
\<close>

definition unique :: "cell list \<Rightarrow> cell list" where
  "unique col = rev (remdups (rev col))"

definition value_counts_series :: "(counts \<Rightarrow> counts) \<Rightarrow> cell list \<Rightarrow> counts" where
  "value_counts_series srt col = srt (map (\<lambda>k. (k, count_list col k)) (unique (dropna col)))"

text \<open>
  \<^verbatim>\<open>sort_values("date_year")\<close> on the table of counts. Numbers and strings in one column
  cannot be compared: \<^verbatim>\<open>TypeError\<close>. The keys of the table are distinct, so every sorting
  algorithm gives the same result.
\<close>

definition sort_values_year :: "counts \<Rightarrow> error + counts" where
  "sort_values_year t =
     (if (\<exists>k \<in> set (map fst t). is_str k) \<and> (\<exists>k \<in> set (map fst t). is_number k)
      then Inl TypeError else Inr (sort_key fst t))"

text \<open>
  The mean of one column over one group. The values of a float column are numbers and
  missing values: the mean is taken over the numbers, and is \<open>NaN\<close> when there is none.
  A string among the values (an object column) raises \<^verbatim>\<open>TypeError\<close> in pandas 2.
\<close>

definition mean_cells :: "cell list \<Rightarrow> error + cell" where
  "mean_cells vs =
     (if \<exists>v \<in> set vs. is_str v then Inl TypeError
      else (case List.map_filter num_of vs of
              [] \<Rightarrow> Inr NaN
            | q # qs \<Rightarrow> Inr (Num (sum_list (q # qs) / of_nat (length (q # qs))))))"

text \<open>
  The cast of a finite double to int64, as numpy does it on x86-64: the value is
  truncated towards zero, and a value whose truncation is outside the int64 range
  gives the smallest int64, \<open>- 2 ^ 63\<close> (the year \<^verbatim>\<open>1e20\<close> becomes
  \<^verbatim>\<open>-9223372036854775808\<close>).
\<close>

definition to_int64 :: "rat \<Rightarrow> int" where
  "to_int64 q =
     (let t = (if 0 \<le> q then \<lfloor>q\<rfloor> else \<lceil>q\<rceil>)
      in if - (2 ^ 63) \<le> t \<and> t < 2 ^ 63 then t else - (2 ^ 63))"

text \<open>
  \<^verbatim>\<open>Series.astype(int)\<close> on one value: a number is cast to int64; a missing value raises
  \<^verbatim>\<open>IntCastingNaNError\<close>, a \<^verbatim>\<open>ValueError\<close>, and so does \<^verbatim>\<open>int("NA")\<close>.
\<close>

fun astype_int :: "cell \<Rightarrow> error + int" where
  "astype_int (Num q) = Inr (to_int64 q)"
| "astype_int _ = Inl ValueError"

section \<open>The program\<close>

subsection \<open>load_data\<close>

text \<open>
  \<^verbatim>\<open>
  turtles_data = pd.read_csv(...)
  turtles_data = turtles_data.loc[turtles_data["date_year"].dropna()]
  return turtles_data.fillna("NA")
  \<close>
  The argument of \<^verbatim>\<open>.loc\<close> is the Series of the years that are not missing. It is not a
  boolean mask, so \<^verbatim>\<open>.loc\<close> takes its values as row labels: the result has, for every such
  year \<open>y\<close> in order, the row whose label is \<open>y\<close>. The labels of the frame are the
  positions \<open>0, ..., n - 1\<close>; a year that is no label (not a whole number, not below \<open>n\<close>,
  a string) raises \<^verbatim>\<open>KeyError\<close>.
\<close>

fun loc_label :: "nat \<Rightarrow> cell \<Rightarrow> nat option" where
  "loc_label n (Num q) =
     (if of_int \<lfloor>q\<rfloor> = q \<and> 0 \<le> q \<and> q < of_nat n then Some (nat \<lfloor>q\<rfloor>) else None)"
| "loc_label n _ = None"

definition load_data :: "dataframe \<Rightarrow> error + dataframe" where
  "load_data csv =
     (case those (map (loc_label (length csv)) (dropna (map date_year csv))) of
        None \<Rightarrow> Inl KeyError
      | Some labels \<Rightarrow> Inr (fillna (map (\<lambda>i. csv ! i) labels)))"

subsection \<open>turtle_population_plot\<close>

text \<open>
  \<^verbatim>\<open>
  df_yearly = df.value_counts(["date_year"]).reset_index().sort_values("date_year")
  df_yearly.columns = ["date_year", "count"]
  df_yearly = df_yearly.query("count > 1 and date_year >= 1990")
  \<close>
  This table is the operation \<open>yearly_counts\<close> of the specification.
\<close>

definition yearly_counts :: "(counts \<Rightarrow> counts) \<Rightarrow> dataframe \<Rightarrow> error + counts" where
  "yearly_counts srt df =
     bind_e (sort_values_year (value_counts_frame srt (map date_year df))) (\<lambda>df_yearly.
     bind_e (ge_scalar (map fst df_yearly) 1990) (\<lambda>m.
     Inr (mask_rows (map2 (\<lambda>c b. 1 < c \<and> b) (map snd df_yearly) m) df_yearly)))"

text \<open>
  The figure takes its points from \<open>df_yearly\<close> and has two annotations. The first is
  placed at \<^verbatim>\<open>df_yearly["count"].max()\<close>, which is \<open>NaN\<close> (here \<open>None\<close>) for an empty table.
  The second is placed at
  \<^verbatim>\<open>df_yearly.query("date_year == 2019")["count"].values[0]\<close>,
  which raises \<^verbatim>\<open>IndexError\<close> when the table has no row for 2019.
\<close>

definition max_count :: "counts \<Rightarrow> nat option" where
  "max_count t = (case map snd t of [] \<Rightarrow> None | c # cs \<Rightarrow> Some (fold max cs c))"

definition turtle_population_plot ::
  "(counts \<Rightarrow> counts) \<Rightarrow> dataframe \<Rightarrow> error + (counts \<times> nat option \<times> nat)" where
  "turtle_population_plot srt df =
     bind_e (yearly_counts srt df) (\<lambda>df_yearly.
       (case filter (\<lambda>r. fst r = Num 2019) df_yearly of
          [] \<Rightarrow> Inl IndexError
        | r # rs \<Rightarrow> Inr (df_yearly, max_count df_yearly, snd r)))"

subsection \<open>scatter_plot\<close>

text \<open>
  \<^verbatim>\<open>
  df_yearly = df.groupby("date_year")[["sst", "sss"]].mean().reset_index()
  \<close>
  This table is the operation \<open>yearly_means\<close> of the specification, for the columns
  \<^verbatim>\<open>sst\<close> and \<^verbatim>\<open>sss\<close>. The figure plots its three columns as they are.
\<close>

definition yearly_means :: "dataframe \<Rightarrow> error + (cell \<times> cell \<times> cell) list" where
  "yearly_means df =
     collect (map (\<lambda>k.
         bind_e (mean_cells (map sst (filter (\<lambda>r. date_year r = k) df))) (\<lambda>a.
         bind_e (mean_cells (map sss (filter (\<lambda>r. date_year r = k) df))) (\<lambda>b.
         Inr (k, a, b))))
       (groupby_keys (map date_year df)))"

subsection \<open>pie_plot\<close>

text \<open>
  \<^verbatim>\<open>
  filtered_data = df.query("date_year >= 2000")
  field_counts = filtered_data[field].value_counts().reset_index()
  field_counts.columns = [field, "count"]
  field_counts = field_counts.query("count > 1")
  \<close>
  This table is the operation \<open>category_counts\<close> of the specification with the threshold
  2000, the only one the program uses. The figure takes its labels and values from it.
\<close>

definition category_counts :: "(counts \<Rightarrow> counts) \<Rightarrow> dataframe \<Rightarrow> string \<Rightarrow> error + counts" where
  "category_counts srt df field =
     bind_e (ge_scalar (map date_year df) 2000) (\<lambda>m.
       (case column field of
          None \<Rightarrow> Inl KeyError
        | Some f \<Rightarrow>
            Inr (filter (\<lambda>r. 1 < snd r)
                   (value_counts_series srt (map f (mask_rows m df))))))"

subsection \<open>filter_turtle_data\<close>

text \<open>
  \<^verbatim>\<open>
  filtered_data = turtles_data[turtles_data["date_year"] >= year]
  filtered_data["date_year"] = filtered_data["date_year"].astype(int)
  return filtered_data[["date_year", "decimalLatitude", "decimalLongitude"]]
  \<close>
  This is the operation \<open>geo_filter\<close> of the specification.
\<close>

definition filter_turtle_data ::
  "dataframe \<Rightarrow> rat \<Rightarrow> error + (int \<times> cell \<times> cell) list" where
  "filter_turtle_data turtles_data year =
     bind_e (ge_scalar (map date_year turtles_data) year) (\<lambda>m.
     bind_e (collect (map (\<lambda>r. astype_int (date_year r)) (mask_rows m turtles_data))) (\<lambda>years.
     Inr (map2 (\<lambda>y r. (y, decimalLatitude r, decimalLongitude r))
            years (mask_rows m turtles_data))))"

section \<open>The specification's words, and the inputs of the examples\<close>

text \<open>
  What the specification says \<open>geo_filter\<close> keeps: the records whose year is at least the
  threshold and whose two coordinates are both present.
\<close>

definition geo_filter_spec :: "dataframe \<Rightarrow> rat \<Rightarrow> dataframe" where
  "geo_filter_spec D y =
     filter (\<lambda>r. cell_ge (date_year r) y \<and> \<not> isna (decimalLatitude r)
                 \<and> \<not> isna (decimalLongitude r)) D"

text \<open>The projection of a record to year (as an integer), latitude and longitude.\<close>

definition projected :: "row \<Rightarrow> int \<times> cell \<times> cell \<Rightarrow> bool" where
  "projected r v =
     (astype_int (date_year r) = Inr (fst v) \<and> decimalLatitude r = fst (snd v)
      \<and> decimalLongitude r = snd (snd v))"

text \<open>
  A dataset typed as the specification's data model has it: the year and the two
  measurements are numbers or missing, never text.
\<close>

definition well_typed :: "dataframe \<Rightarrow> bool" where
  "well_typed df =
     (\<forall>r \<in> set df. \<not> is_str (date_year r) \<and> \<not> is_str (sst r) \<and> \<not> is_str (sss r))"

definition blank :: row where
  "blank = \<lparr>date_year = NaN, waterBody = NaN, country = NaN, decimalLatitude = NaN,
            decimalLongitude = NaN, sst = NaN, sss = NaN\<rparr>"

definition sighting :: "rat \<Rightarrow> string \<Rightarrow> row" where
  "sighting y w = blank\<lparr>date_year := Num y, waterBody := Str w\<rparr>"

text \<open>The specification's example for \<open>yearly_counts\<close>.\<close>

definition ex_years :: dataframe where
  "ex_years = map (\<lambda>y. blank\<lparr>date_year := Num y\<rparr>) [1990, 1990, 1991, 1991, 1991, 2005]"

definition ex_2019 :: dataframe where
  "ex_2019 = map (\<lambda>y. blank\<lparr>date_year := Num y\<rparr>) [2019, 2000, 2019, 2000, 2000]"

text \<open>The specification's example for \<open>category_counts\<close>.\<close>

definition ex_habitat :: dataframe where
  "ex_habitat = [sighting 2005 ''Pacific'', sighting 2001 ''Atlantic'', sighting 2010 ''Pacific'',
                 sighting 1995 ''Atlantic'']"

definition ex_ties :: dataframe where
  "ex_ties = [sighting 2005 ''Pacific'', sighting 2006 ''Pacific'', sighting 2007 ''Atlantic'',
              sighting 2008 ''Atlantic'']"

definition ex_null_category :: dataframe where
  "ex_null_category = [sighting 2005 ''Pacific'', blank\<lparr>date_year := Num 2006\<rparr>,
                       blank\<lparr>date_year := Num 2007\<rparr>, blank\<lparr>date_year := Num 1999\<rparr>]"

definition ex_null_coords :: dataframe where
  "ex_null_coords = [blank\<lparr>date_year := Num 2005\<rparr>]"

definition ex_geo :: dataframe where
  "ex_geo = [blank\<lparr>date_year := Num 2005, decimalLatitude := Num 13, decimalLongitude := Num (-88)\<rparr>,
             blank\<lparr>date_year := Num 1995, decimalLatitude := Num 9, decimalLongitude := Num (-84)\<rparr>,
             blank\<lparr>date_year := Num 2010, decimalLatitude := Num 12\<rparr>,
             blank\<lparr>decimalLatitude := Num 10, decimalLongitude := Num (-85)\<rparr>]"

definition ex_null_sst :: dataframe where
  "ex_null_sst = [blank\<lparr>date_year := Num 2000, sss := Num 35\<rparr>,
                  blank\<lparr>date_year := Num 1999, sst := Num 26, sss := Num 34\<rparr>,
                  blank\<lparr>date_year := Num 1999, sst := Num 28\<rparr>]"

text \<open>A year far outside the int64 range.\<close>

definition ex_big_year :: dataframe where
  "ex_big_year = [blank\<lparr>date_year := Num (10 ^ 20)\<rparr>]"

definition ex_text_sst :: dataframe where
  "ex_text_sst = [blank\<lparr>date_year := Num 2000, sst := Str ''NA'', sss := Num 35\<rparr>]"

definition ex_text_year :: dataframe where
  "ex_text_year = [blank\<lparr>date_year := Str ''NA''\<rparr>]"

text \<open>
  A CSV file of two lines: a sighting of the year 1, and a sighting with no year.
\<close>

definition ex_csv :: dataframe where
  "ex_csv = [blank\<lparr>date_year := Num 1, sst := Num 25, sss := Num 35\<rparr>,
             blank\<lparr>sst := Num 26, sss := Num 36\<rparr>]"

text \<open>
  A CSV file of 2006 lines: 2005 sightings of the year 2005, then one with no year.
\<close>

definition ex_csv_2005 :: dataframe where
  "ex_csv_2005 = replicate 2005 (blank\<lparr>date_year := Num 2005, sst := Num 25, sss := Num 35\<rparr>)
                 @ [blank\<lparr>sst := Num 26, sss := Num 36\<rparr>]"

text \<open>
  A CSV file of 2006 lines: 2005 sightings of the year 2005 that name no water body,
  then a sighting in the Pacific with no year.
\<close>

definition ex_csv_null_category :: dataframe where
  "ex_csv_null_category = replicate 2005 (blank\<lparr>date_year := Num 2005\<rparr>)
                          @ [blank\<lparr>waterBody := Str ''Pacific''\<rparr>]"

section \<open>Auxiliary facts\<close>

lemma bind_e_Inr: "bind_e m f = Inr y \<longleftrightarrow> (\<exists>x. m = Inr x \<and> f x = Inr y)"
  by (cases m) auto


lemma collect_map_Inr: "collect (map Inr ys) = Inr ys"
  by (induction ys) simp_all

lemma collect_Inr_D: "collect xs = Inr ys \<Longrightarrow> xs = map Inr ys"
proof (induction xs arbitrary: ys)
  case Nil
  then show ?case by simp
next
  case (Cons x xs)
  from Cons.prems obtain v vs where x: "x = Inr v" and vs: "collect xs = Inr vs"
    and ys: "ys = v # vs"
    by (cases x; cases "collect xs") auto
  from Cons.IH [OF vs] x ys show ?case by simp
qed

lemma collect_Inr: "collect xs = Inr ys \<longleftrightarrow> xs = map Inr ys"
  using collect_Inr_D collect_map_Inr by blast


lemma mask_rows_map: "mask_rows (map p xs) xs = filter p xs"
  by (induction xs) (auto simp: mask_rows_def)


lemma ge_scalar_Inr:
  "ge_scalar col y = Inr m \<longleftrightarrow> (\<forall>c \<in> set col. \<not> is_str c) \<and> m = map (\<lambda>c. cell_ge c y) col"
  by (auto simp: ge_scalar_def)


lemma cell_ge_Num: "cell_ge k y \<longleftrightarrow> (\<exists>q. k = Num q \<and> y \<le> q)"
  by (cases k) auto


lemma less_Num [simp]: "Num a < Num b \<longleftrightarrow> a < b"
  by (auto simp: less_cell_def)


lemma desc_sort_set: "desc_sort srt \<Longrightarrow> set (srt t) = set t"
  unfolding desc_sort_def by (metis set_mset_mset)


lemma desc_sort_keys: "desc_sort srt \<Longrightarrow> mset (map fst (srt t)) = mset (map fst t)"
  unfolding desc_sort_def by (metis mset_map)


lemma desc_sort_distinct:
  "desc_sort srt \<Longrightarrow> distinct (map fst (srt t)) = distinct (map fst t)"
  using desc_sort_keys [of srt t] by (metis mset_eq_imp_distinct_iff)


lemma desc_sort_stable: "desc_sort sort_desc_stable"
  unfolding desc_sort_def sort_desc_stable_def
proof (intro allI conjI)
  fix t :: counts
  show "mset (rev (sort_key snd (rev t))) = mset t" by simp
  have "sorted (map snd (sort_key snd (rev t)))" by (rule sorted_sort_key)
  then have "sorted_wrt (\<lambda>a b. snd a \<le> snd b) (sort_key snd (rev t))"
    by (simp add: sorted_map)
  then show "sorted_wrt (\<lambda>a b. snd b \<le> snd a) (rev (sort_key snd (rev t)))"
    by (simp add: sorted_wrt_rev)
qed



lemma distinct_groupby_keys: "distinct (groupby_keys col)"
  by (simp add: groupby_keys_def)

lemma set_groupby_keys: "set (groupby_keys col) = {k \<in> set col. \<not> isna k}"
  by (auto simp: groupby_keys_def dropna_def)

lemma map2_same: "map2 f (map g xs) (map h xs) = map (\<lambda>x. f (g x) (h x)) xs"
  by (induction xs) simp_all

lemma all_num_map_Num:
  "\<forall>k \<in> set ks. is_number k \<Longrightarrow> ks = map Num (List.map_filter num_of ks)"
proof (induction ks)
  case Nil
  then show ?case by (simp add: List.map_filter_simps)
next
  case (Cons a ks)
  then show ?case by (cases a) (simp_all add: List.map_filter_simps)
qed

lemma yearly_counts_Inr:
  assumes "yearly_counts srt df = Inr out"
  shows "out = filter (\<lambda>r. 1 < snd r \<and> cell_ge (fst r) 1990)
                 (sort_key fst (value_counts_frame srt (map date_year df)))"
proof -
  from assms obtain t m where t: "sort_values_year (value_counts_frame srt (map date_year df)) = Inr t"
    and m: "ge_scalar (map fst t) 1990 = Inr m"
    and out: "out = mask_rows (map2 (\<lambda>c b. 1 < c \<and> b) (map snd t) m) t"
    unfolding yearly_counts_def by (auto simp: bind_e_Inr)
  from t have t': "t = sort_key fst (value_counts_frame srt (map date_year df))"
    by (auto simp: sort_values_year_def split: if_splits)
  from m have "m = map (\<lambda>c. cell_ge c 1990) (map fst t)"
    by (simp add: ge_scalar_Inr)
  then have "map2 (\<lambda>c b. 1 < c \<and> b) (map snd t) m = map (\<lambda>r. 1 < snd r \<and> cell_ge (fst r) 1990) t"
    by (simp add: map2_same)
  with out t' show ?thesis
    by (simp add: mask_rows_map)
qed

lemma sorted_keys_frame:
  assumes "desc_sort srt"
  shows "sorted_wrt (<) (map fst (sort_key fst (value_counts_frame srt col)))"
proof -
  let ?t = "value_counts_frame srt col"
  have "distinct (map fst ?t)"
    using assms by (simp add: value_counts_frame_def desc_sort_distinct comp_def distinct_groupby_keys)
  then have "distinct (map fst (sort_key fst ?t))"
    by (metis mset_eq_imp_distinct_iff mset_map mset_sort)
  moreover have "sorted (map fst (sort_key fst ?t))" by (rule sorted_sort_key)
  ultimately show ?thesis
    by (simp add: strict_sorted_iff)
qed

lemma mask_rows_map2: "mask_rows (map p (map g xs)) xs = filter (\<lambda>x. p (g x)) xs"
  using mask_rows_map [of "\<lambda>x. p (g x)" xs] by (simp add: comp_def)

lemma count_list_map: "count_list (map f xs) k = length (filter (\<lambda>r. f r = k) xs)"
  by (induction xs) simp_all

lemma set_unique: "set (unique col) = set col"
  by (simp add: unique_def)

lemma distinct_unique: "distinct (unique col)"
  by (simp add: unique_def)

lemma category_counts_Inr:
  assumes "category_counts srt df field = Inr out"
  shows "\<exists>f. column field = Some f \<and> (\<forall>r \<in> set df. \<not> is_str (date_year r)) \<and>
           out = filter (\<lambda>r. 1 < snd r)
                   (value_counts_series srt
                      (map f (filter (\<lambda>r. cell_ge (date_year r) 2000) df)))"
proof -
  from assms obtain m where m: "ge_scalar (map date_year df) 2000 = Inr m"
    and rest: "(case column field of None \<Rightarrow> Inl KeyError
                | Some f \<Rightarrow> Inr (filter (\<lambda>r. 1 < snd r)
                     (value_counts_series srt (map f (mask_rows m df))))) = Inr out"
    unfolding category_counts_def by (auto simp: bind_e_Inr)
  from m have m': "m = map (\<lambda>c. cell_ge c 2000) (map date_year df)"
    and ns: "\<forall>r \<in> set df. \<not> is_str (date_year r)"
    by (simp_all add: ge_scalar_Inr)
  from rest obtain f where f: "column field = Some f"
    and out: "out = filter (\<lambda>r. 1 < snd r) (value_counts_series srt (map f (mask_rows m df)))"
    by (cases "column field") auto
  from out have "out = filter (\<lambda>r. 1 < snd r)
      (value_counts_series srt (map f (filter (\<lambda>r. cell_ge (date_year r) 2000) df)))"
    unfolding m' by (simp only: mask_rows_map2)
  with f ns show ?thesis by blast
qed

lemma value_counts_series_mem:
  assumes "desc_sort srt"
  shows "(k, c) \<in> set (value_counts_series srt col)
           \<longleftrightarrow> k \<in> set col \<and> \<not> isna k \<and> c = count_list col k"
  using assms by (auto simp: value_counts_series_def desc_sort_set set_unique dropna_def)

lemma value_counts_frame_mem:
  assumes "desc_sort srt"
  shows "(k, c) \<in> set (value_counts_frame srt col)
           \<longleftrightarrow> k \<in> set col \<and> \<not> isna k \<and> c = count_list col k"
  using assms by (auto simp: value_counts_frame_def desc_sort_set set_groupby_keys)

text \<open>
  C5. Every row of the table of \<open>yearly_counts\<close> has a year of 1990 or later and a count
  above one.
\<close>

theorem yearly_counts_bounds:
  assumes "yearly_counts srt df = Inr out" and "(k, c) \<in> set out"
  shows "\<exists>q. k = Num q \<and> 1990 \<le> q \<and> 1 < c"
  using assms by (auto simp: cell_ge_Num dest!: yearly_counts_Inr)

theorem yearly_counts_bounds_witness:
  "yearly_counts sort_desc_stable ex_years = Inr [(Num 1990, 2), (Num 1991, 3)]
   \<and> (\<exists>q. Num 1991 = Num q \<and> 1990 \<le> q \<and> (1::nat) < 3)"
proof -
  have h: "yearly_counts sort_desc_stable ex_years = Inr [(Num 1990, 2), (Num 1991, 3)]"
    by code_simp
  have "(Num 1991, 3) \<in> set [(Num 1990, 2), (Num 1991, 3::nat)]" by simp
  from yearly_counts_bounds [OF h this] h show ?thesis by simp
qed

text \<open>
  C6. The years of the table of \<open>yearly_counts\<close> are numbers in strictly ascending order,
  so none occurs twice.
\<close>

theorem yearly_counts_ascending:
  assumes "desc_sort srt" and "yearly_counts srt df = Inr out"
  shows "\<exists>qs. map fst out = map Num qs \<and> sorted_wrt (<) qs"
proof -
  let ?t = "sort_key fst (value_counts_frame srt (map date_year df))"
  let ?p = "\<lambda>r. 1 < snd r \<and> cell_ge (fst r) 1990"
  have out: "out = filter ?p ?t" using assms(2) by (rule yearly_counts_Inr)
  have "sorted_wrt (<) (map fst ?t)" using assms(1) by (rule sorted_keys_frame)
  then have s: "sorted_wrt (<) (map fst out)"
    unfolding out by (simp add: sorted_wrt_map sorted_wrt_filter)
  have "\<forall>k \<in> set (map fst out). is_number k"
    unfolding out by (auto simp: cell_ge_Num)
  then have "map fst out = map Num (List.map_filter num_of (map fst out))"
    by (rule all_num_map_Num)
  moreover from this s have "sorted_wrt (<) (map Num (List.map_filter num_of (map fst out)))"
    by simp
  then have "sorted_wrt (<) (List.map_filter num_of (map fst out))"
    by (simp add: sorted_wrt_map)
  ultimately show ?thesis by blast
qed

theorem yearly_counts_ascending_witness:
  "desc_sort sort_desc_stable
   \<and> yearly_counts sort_desc_stable ex_2019 = Inr [(Num 2000, 3), (Num 2019, 2)]
   \<and> (\<exists>qs. map fst [(Num 2000, 3::nat), (Num 2019, 2)] = map Num qs \<and> sorted_wrt (<) qs)"
proof -
  have h: "yearly_counts sort_desc_stable ex_2019 = Inr [(Num 2000, 3), (Num 2019, 2)]"
    by code_simp
  from yearly_counts_ascending [OF desc_sort_stable h] h desc_sort_stable
  show ?thesis by blast
qed

text \<open>
  C7. A row of the table of \<open>category_counts\<close> has a count above one, and the count is
  the number of records of the year 2000 or later that have the row's category: no
  record of an earlier year is counted.
\<close>

theorem category_counts_threshold:
  assumes "desc_sort srt" and "category_counts srt df field = Inr out"
    and "(k, c) \<in> set out"
  shows "1 < c \<and> (\<exists>f. column field = Some f \<and>
           c = length (filter (\<lambda>r. cell_ge (date_year r) 2000 \<and> f r = k) df))"
proof -
  from category_counts_Inr [OF assms(2)] obtain f where f: "column field = Some f"
    and out: "out = filter (\<lambda>r. 1 < snd r)
                (value_counts_series srt
                   (map f (filter (\<lambda>r. cell_ge (date_year r) 2000) df)))"
    by blast
  from assms(3) have c1: "1 < c"
    and mem: "(k, c) \<in> set (value_counts_series srt
                 (map f (filter (\<lambda>r. cell_ge (date_year r) 2000) df)))"
    unfolding out by auto
  from mem have "c = count_list (map f (filter (\<lambda>r. cell_ge (date_year r) 2000) df)) k"
    by (simp add: value_counts_series_mem [OF assms(1)])
  then have "c = length (filter (\<lambda>r. cell_ge (date_year r) 2000 \<and> f r = k) df)"
    by (simp add: count_list_map conj_commute)
  with c1 f show ?thesis by blast
qed

theorem category_counts_threshold_witness:
  "desc_sort sort_desc_stable
   \<and> category_counts sort_desc_stable ex_habitat ''waterBody'' = Inr [(Str ''Pacific'', 2)]
   \<and> (1::nat) < 2
   \<and> (\<exists>f. column ''waterBody'' = Some f \<and>
         2 = length (filter (\<lambda>r. cell_ge (date_year r) 2000 \<and> f r = Str ''Pacific'') ex_habitat))"
proof -
  have h: "category_counts sort_desc_stable ex_habitat ''waterBody'' = Inr [(Str ''Pacific'', 2)]"
    by code_simp
  have "(Str ''Pacific'', 2) \<in> set [(Str ''Pacific'', 2::nat)]" by simp
  from category_counts_threshold [OF desc_sort_stable h this] h desc_sort_stable
  show ?thesis by blast
qed

lemma collect_astype_int:
  assumes "\<forall>r \<in> set rs. is_number (date_year r)"
  shows "\<exists>ys. collect (map (\<lambda>r. astype_int (date_year r)) rs) = Inr ys"
  using assms
proof (induction rs)
  case Nil
  then show ?case by simp
next
  case (Cons r rs)
  then obtain ys where "collect (map (\<lambda>r. astype_int (date_year r)) rs) = Inr ys"
    by auto
  with Cons.prems show ?case by (cases "date_year r") simp_all
qed

lemma filter_turtle_data_Inr:
  assumes "filter_turtle_data df y = Inr out"
  shows "\<exists>years. map (\<lambda>r. astype_int (date_year r))
                   (filter (\<lambda>r. cell_ge (date_year r) y) df) = map Inr years
           \<and> out = map2 (\<lambda>y r. (y, decimalLatitude r, decimalLongitude r)) years
                     (filter (\<lambda>r. cell_ge (date_year r) y) df)"
proof -
  from assms obtain m years where m: "ge_scalar (map date_year df) y = Inr m"
    and years: "collect (map (\<lambda>r. astype_int (date_year r)) (mask_rows m df)) = Inr years"
    and out: "out = map2 (\<lambda>y r. (y, decimalLatitude r, decimalLongitude r)) years (mask_rows m df)"
    unfolding filter_turtle_data_def by (auto simp: bind_e_Inr)
  from m have "m = map (\<lambda>c. cell_ge c y) (map date_year df)"
    by (simp add: ge_scalar_Inr)
  then have rows: "mask_rows m df = filter (\<lambda>r. cell_ge (date_year r) y) df"
    by (simp only: mask_rows_map2)
  from years out show ?thesis
    unfolding rows by (auto dest: collect_Inr_D)
qed

lemma filter_turtle_data_projected:
  assumes "filter_turtle_data df y = Inr out"
  shows "list_all2 projected (filter (\<lambda>r. cell_ge (date_year r) y) df) out"
proof -
  let ?rs = "filter (\<lambda>r. cell_ge (date_year r) y) df"
  from filter_turtle_data_Inr [OF assms] obtain years
    where years: "map (\<lambda>r. astype_int (date_year r)) ?rs = map Inr years"
      and out: "out = map2 (\<lambda>y r. (y, decimalLatitude r, decimalLongitude r)) years ?rs"
    by blast
  from years have len: "length years = length ?rs"
    by (metis length_map)
  from years have nth: "\<forall>i < length ?rs. astype_int (date_year (?rs ! i)) = Inr (years ! i)"
    by (metis len nth_map)
  show ?thesis
    unfolding out list_all2_conv_all_nth using len nth by (simp add: projected_def)
qed

lemma length_filter_cell_ge:
  assumes "y1 \<le> y2"
  shows "length (filter (\<lambda>r. cell_ge (date_year r) y2) df)
           \<le> length (filter (\<lambda>r. cell_ge (date_year r) y1) df)"
proof (induction df)
  case Nil
  then show ?case by simp
next
  case (Cons r df)
  have "cell_ge (date_year r) y2 \<Longrightarrow> cell_ge (date_year r) y1"
    using assms by (cases "date_year r") auto
  with Cons show ?case by auto
qed

lemma to_int64_range: "- (2 ^ 63) \<le> to_int64 q \<and> to_int64 q < 2 ^ 63"
  by (simp add: to_int64_def Let_def)

lemma to_int64_out_of_range: "to_int64 (10 ^ 20) = - 9223372036854775808"
  by (simp add: to_int64_def Let_def)

text \<open>
  C1, as amended. \<^verbatim>\<open>filter_turtle_data\<close> returns the records whose year is at least the
  threshold, in the order of the dataset, whether or not their coordinates are present,
  each projected to its year (cast to int64 as \<^verbatim>\<open>astype(int)\<close> casts it), latitude and
  longitude.
\<close>

theorem filter_turtle_data_rows:
  assumes "filter_turtle_data D y = Inr out"
  shows "list_all2 projected (filter (\<lambda>r. cell_ge (date_year r) y) D) out"
proof -
  let ?rs = "filter (\<lambda>r. cell_ge (date_year r) y) D"
  from filter_turtle_data_Inr [OF assms] obtain years
    where years: "map (\<lambda>r. astype_int (date_year r)) ?rs = map Inr years"
      and out: "out = map2 (\<lambda>y r. (y, decimalLatitude r, decimalLongitude r)) years ?rs"
    by blast
  from years have len: "length years = length ?rs"
    by (metis length_map)
  from years have nth: "\<forall>i < length ?rs. astype_int (date_year (?rs ! i)) = Inr (years ! i)"
    by (metis len nth_map)
  show ?thesis
    unfolding out list_all2_conv_all_nth using len nth by (simp add: projected_def)
qed

theorem filter_turtle_data_rows_witness:
  "filter_turtle_data (ex_geo @ ex_big_year) 2000
     = Inr [(2005, Num 13, Num (- 88)), (2010, Num 12, NaN),
            (- 9223372036854775808, NaN, NaN)]
   \<and> list_all2 projected (filter (\<lambda>r. cell_ge (date_year r) 2000) (ex_geo @ ex_big_year))
        [(2005, Num 13, Num (- 88)), (2010, Num 12, NaN), (- 9223372036854775808, NaN, NaN)]"
proof -
  have h: "filter_turtle_data (ex_geo @ ex_big_year) 2000
     = Inr [(2005, Num 13, Num (- 88)), (2010, Num 12, NaN),
            (- 9223372036854775808, NaN, NaN)]"
    by code_simp
  from filter_turtle_data_rows [OF h] h show ?thesis by simp
qed

text \<open>
  The claim as the specification states it fails on a record of the year 2005 with
  neither coordinate: \<^verbatim>\<open>filter_turtle_data\<close> returns it, the specification's rows are none.
\<close>

theorem filter_turtle_data_keeps_null_coordinates:
  "filter_turtle_data ex_null_coords 2000 = Inr [(2005, NaN, NaN)]
   \<and> geo_filter_spec ex_null_coords 2000 = []"
  by code_simp

text \<open>
  C9. A higher threshold never gives more rows.
\<close>

theorem filter_turtle_data_monotone:
  assumes "y1 \<le> y2"
    and "filter_turtle_data D y1 = Inr out1" and "filter_turtle_data D y2 = Inr out2"
  shows "length out2 \<le> length out1"
proof -
  have "length out1 = length (filter (\<lambda>r. cell_ge (date_year r) y1) D)"
    using filter_turtle_data_projected [OF assms(2)] by (simp add: list_all2_lengthD)
  moreover have "length out2 = length (filter (\<lambda>r. cell_ge (date_year r) y2) D)"
    using filter_turtle_data_projected [OF assms(3)] by (simp add: list_all2_lengthD)
  ultimately show ?thesis
    using length_filter_cell_ge [OF assms(1), of D] by simp
qed

theorem filter_turtle_data_monotone_witness:
  "(1990::rat) \<le> 2000
   \<and> filter_turtle_data ex_geo 1990
       = Inr [(2005, Num 13, Num (- 88)), (1995, Num 9, Num (- 84)), (2010, Num 12, NaN)]
   \<and> filter_turtle_data ex_geo 2000 = Inr [(2005, Num 13, Num (- 88)), (2010, Num 12, NaN)]
   \<and> length [(2005::int, Num 13, Num (- 88)), (2010, Num 12, NaN)]
       \<le> length [(2005::int, Num 13, Num (- 88)), (1995, Num 9, Num (- 84)), (2010, Num 12, NaN)]"
proof -
  have le: "(1990::rat) \<le> 2000" by simp
  have h1: "filter_turtle_data ex_geo 1990
       = Inr [(2005, Num 13, Num (- 88)), (1995, Num 9, Num (- 84)), (2010, Num 12, NaN)]"
    by code_simp
  have h2: "filter_turtle_data ex_geo 2000 = Inr [(2005, Num 13, Num (- 88)), (2010, Num 12, NaN)]"
    by code_simp
  from filter_turtle_data_monotone [OF le h1 h2] le h1 h2 show ?thesis by blast
qed

lemma collect_map_Inr_D:
  assumes "collect (map g ks) = Inr out"
  shows "length out = length ks \<and> (\<forall>i < length ks. g (ks ! i) = Inr (out ! i))"
proof -
  from assms have eq: "map g ks = map Inr out" by (rule collect_Inr_D)
  then have len: "length out = length ks" by (metis length_map)
  from eq have "\<forall>i < length ks. g (ks ! i) = Inr (out ! i)"
    by (metis len nth_map)
  with len show ?thesis by simp
qed

lemma mean_cells_all_null:
  assumes "mean_cells vs = Inr a" and "\<forall>v \<in> set vs. isna v"
  shows "a = NaN"
proof -
  from assms(2) have "List.map_filter num_of vs = []"
    by (induction vs) (auto simp: List.map_filter_simps elim: isna.elims)
  with assms(1) show ?thesis
    by (auto simp: mean_cells_def split: if_splits)
qed

lemma yearly_means_Inr:
  assumes "yearly_means df = Inr out" and "(k, a, b) \<in> set out"
  shows "k \<in> set (groupby_keys (map date_year df))
         \<and> mean_cells (map sst (filter (\<lambda>r. date_year r = k) df)) = Inr a
         \<and> mean_cells (map sss (filter (\<lambda>r. date_year r = k) df)) = Inr b"
proof -
  let ?ks = "groupby_keys (map date_year df)"
  let ?g = "\<lambda>k. bind_e (mean_cells (map sst (filter (\<lambda>r. date_year r = k) df))) (\<lambda>a.
         bind_e (mean_cells (map sss (filter (\<lambda>r. date_year r = k) df))) (\<lambda>b.
         Inr (k, a, b)))"
  from assms(1) have c: "collect (map ?g ?ks) = Inr out"
    by (simp add: yearly_means_def)
  from collect_map_Inr_D [OF c] have len: "length out = length ?ks"
    and nth: "\<forall>i < length ?ks. ?g (?ks ! i) = Inr (out ! i)"
    by blast+
  from assms(2) obtain i where i: "i < length out" and oi: "out ! i = (k, a, b)"
    by (auto simp: in_set_conv_nth)
  from nth i len oi have "?g (?ks ! i) = Inr (k, a, b)" by simp
  then have "?ks ! i = k
      \<and> mean_cells (map sst (filter (\<lambda>r. date_year r = k) df)) = Inr a
      \<and> mean_cells (map sss (filter (\<lambda>r. date_year r = k) df)) = Inr b"
    by (auto simp: bind_e_Inr)
  moreover have "?ks ! i \<in> set ?ks" using i len by simp
  ultimately show ?thesis by auto
qed

lemma yearly_means_keys:
  assumes "yearly_means df = Inr out"
  shows "map fst out = groupby_keys (map date_year df)"
proof -
  let ?ks = "groupby_keys (map date_year df)"
  let ?g = "\<lambda>k. bind_e (mean_cells (map sst (filter (\<lambda>r. date_year r = k) df))) (\<lambda>a.
         bind_e (mean_cells (map sss (filter (\<lambda>r. date_year r = k) df))) (\<lambda>b.
         Inr (k, a, b)))"
  from assms have c: "collect (map ?g ?ks) = Inr out"
    by (simp add: yearly_means_def)
  from collect_map_Inr_D [OF c] have len: "length out = length ?ks"
    and nth: "\<forall>i < length ?ks. ?g (?ks ! i) = Inr (out ! i)"
    by blast+
  have "\<forall>i < length ?ks. fst (out ! i) = ?ks ! i"
  proof (intro allI impI)
    fix i assume "i < length ?ks"
    with nth have "?g (?ks ! i) = Inr (out ! i)" by simp
    then obtain a b where "(?ks ! i, a, b) = out ! i" by (auto simp: bind_e_Inr)
    then have "out ! i = (?ks ! i, a, b)" by (rule sym)
    then show "fst (out ! i) = ?ks ! i" by simp
  qed
  with len show ?thesis by (simp add: list_eq_iff_nth_eq)
qed

text \<open>
  C3, as amended. The table of \<open>yearly_means\<close> has one row for every year of the dataset
  that is not missing, in ascending order, whatever the values of the columns are. In
  the row of a year in which every value of a column is missing, the mean of that
  column is the marker \<open>NaN\<close>.
\<close>

theorem yearly_means_all_null:
  assumes "yearly_means D = Inr out"
  shows "map fst out = groupby_keys (map date_year D)
         \<and> set (map fst out) = {k \<in> set (map date_year D). \<not> isna k}
         \<and> (\<forall>(k, a, b) \<in> set out.
              ((\<forall>r \<in> set D. date_year r = k \<longrightarrow> isna (sst r)) \<longrightarrow> a = NaN)
              \<and> ((\<forall>r \<in> set D. date_year r = k \<longrightarrow> isna (sss r)) \<longrightarrow> b = NaN))"
proof -
  have keys: "map fst out = groupby_keys (map date_year D)"
    using assms by (rule yearly_means_keys)
  have "\<forall>(k, a, b) \<in> set out.
          ((\<forall>r \<in> set D. date_year r = k \<longrightarrow> isna (sst r)) \<longrightarrow> a = NaN)
          \<and> ((\<forall>r \<in> set D. date_year r = k \<longrightarrow> isna (sss r)) \<longrightarrow> b = NaN)"
  proof (clarify, intro conjI impI)
    fix k a b assume mem: "(k, a, b) \<in> set out"
    note m = yearly_means_Inr [OF assms mem]
    { assume "\<forall>r \<in> set D. date_year r = k \<longrightarrow> isna (sst r)"
      then have "\<forall>v \<in> set (map sst (filter (\<lambda>r. date_year r = k) D)). isna v" by auto
      with m show "a = NaN" by (blast intro: mean_cells_all_null) }
    { assume "\<forall>r \<in> set D. date_year r = k \<longrightarrow> isna (sss r)"
      then have "\<forall>v \<in> set (map sss (filter (\<lambda>r. date_year r = k) D)). isna v" by auto
      with m show "b = NaN" by (blast intro: mean_cells_all_null) }
  qed
  with keys show ?thesis
    by (simp only: set_groupby_keys)
qed

theorem yearly_means_all_null_witness:
  "yearly_means ex_null_sst = Inr [(Num 1999, Num 27, Num 34), (Num 2000, NaN, Num 35)]
   \<and> map fst [(Num 1999, Num 27, Num 34), (Num 2000, NaN, Num 35)]
       = groupby_keys (map date_year ex_null_sst)
   \<and> (Num 2000, NaN, Num 35) \<in> set [(Num 1999, Num 27, Num 34), (Num 2000, NaN, Num 35)]"
proof -
  have h: "yearly_means ex_null_sst = Inr [(Num 1999, Num 27, Num 34), (Num 2000, NaN, Num 35)]"
    by code_simp
  from yearly_means_all_null [OF h] h show ?thesis by simp
qed

text \<open>
  The claim as the specification states it fails on the year 2000 of this dataset: its
  one record has no temperature, and the table has a row for it.
\<close>

theorem yearly_means_keeps_all_null_year:
  "yearly_means ex_null_sst = Inr [(Num 1999, Num 27, Num 34), (Num 2000, NaN, Num 35)]
   \<and> list_all (\<lambda>r. isna (sst r)) (filter (\<lambda>r. date_year r = Num 2000) ex_null_sst)"
  by code_simp

lemma desc_sort_Nil: "desc_sort srt \<Longrightarrow> srt [] = []"
  unfolding desc_sort_def by (metis mset_zero_iff)

lemma value_counts_frame_keys:
  assumes "desc_sort srt"
  shows "set (map fst (value_counts_frame srt col)) = {k \<in> set col. \<not> isna k}"
proof -
  have "set (map fst (value_counts_frame srt col)) = set (groupby_keys col)"
    using assms by (simp add: value_counts_frame_def desc_sort_set image_image)
  then show ?thesis by (simp only: set_groupby_keys)
qed

lemma yearly_counts_total:
  assumes "desc_sort srt" and "\<forall>r \<in> set df. \<not> is_str (date_year r)"
  shows "yearly_counts srt df
           = Inr (filter (\<lambda>r. 1 < snd r \<and> cell_ge (fst r) 1990)
                    (sort_key fst (value_counts_frame srt (map date_year df))))"
proof -
  let ?t = "value_counts_frame srt (map date_year df)"
  have keys: "\<forall>k \<in> set (map fst ?t). \<not> is_str k"
    using assms(2) unfolding value_counts_frame_keys [OF assms(1)] by auto
  then have s: "sort_values_year ?t = Inr (sort_key fst ?t)"
    unfolding sort_values_year_def by auto
  have "set (map fst (sort_key fst ?t)) = set (map fst ?t)" by simp
  with keys have "\<forall>c \<in> set (map fst (sort_key fst ?t)). \<not> is_str c" by simp
  then have g: "ge_scalar (map fst (sort_key fst ?t)) 1990
      = Inr (map (\<lambda>c. cell_ge c 1990) (map fst (sort_key fst ?t)))"
    unfolding ge_scalar_def by auto
  have "mask_rows (map2 (\<lambda>c b. 1 < c \<and> b) (map snd (sort_key fst ?t))
            (map (\<lambda>c. cell_ge c 1990) (map fst (sort_key fst ?t)))) (sort_key fst ?t)
          = filter (\<lambda>r. 1 < snd r \<and> cell_ge (fst r) 1990) (sort_key fst ?t)"
    by (simp only: map_map map2_same mask_rows_map comp_def)
  with s g show ?thesis
    unfolding yearly_counts_def by simp
qed

lemma yearly_counts_text_year:
  assumes "desc_sort srt" and "r \<in> set df" and "is_str (date_year r)"
  shows "yearly_counts srt df = Inl TypeError"
proof -
  let ?t = "value_counts_frame srt (map date_year df)"
  from assms(3) have "\<not> isna (date_year r)" by (cases "date_year r") simp_all
  with assms(2) have k: "date_year r \<in> set (map fst ?t)"
    unfolding value_counts_frame_keys [OF assms(1)] by auto
  show ?thesis
  proof (cases "sort_values_year ?t")
    case (Inl e)
    then have "e = TypeError" by (auto simp: sort_values_year_def split: if_splits)
    with Inl show ?thesis by (simp add: yearly_counts_def)
  next
    case (Inr t')
    then have "t' = sort_key fst ?t" by (auto simp: sort_values_year_def split: if_splits)
    then have "set (map fst t') = set (map fst ?t)" by simp
    with k assms(3) have "\<exists>c \<in> set (map fst t'). is_str c" by blast
    then have "ge_scalar (map fst t') 1990 = Inl TypeError"
      unfolding ge_scalar_def by simp
    with Inr show ?thesis by (simp add: yearly_counts_def)
  qed
qed

lemma collect_total:
  assumes "\<forall>k \<in> set ks. \<exists>v. g k = Inr v"
  shows "\<exists>vs. collect (map g ks) = Inr vs"
  using assms
proof (induction ks)
  case Nil
  then show ?case by simp
next
  case (Cons k ks)
  then obtain v vs where "g k = Inr v" and "collect (map g ks) = Inr vs" by auto
  then show ?case by simp
qed

lemma mean_cells_total:
  assumes "\<forall>v \<in> set vs. \<not> is_str v"
  shows "\<exists>a. mean_cells vs = Inr a"
  using assms unfolding mean_cells_def by (simp split: list.split)

lemma yearly_means_total:
  assumes "\<forall>r \<in> set df. \<not> is_str (sst r) \<and> \<not> is_str (sss r)"
  shows "\<exists>t. yearly_means df = Inr t"
  unfolding yearly_means_def
proof (rule collect_total, rule ballI)
  fix k
  have "\<forall>v \<in> set (map sst (filter (\<lambda>r. date_year r = k) df)). \<not> is_str v"
    using assms by auto
  then obtain a where a: "mean_cells (map sst (filter (\<lambda>r. date_year r = k) df)) = Inr a"
    using mean_cells_total by blast
  have "\<forall>v \<in> set (map sss (filter (\<lambda>r. date_year r = k) df)). \<not> is_str v"
    using assms by auto
  then obtain b where b: "mean_cells (map sss (filter (\<lambda>r. date_year r = k) df)) = Inr b"
    using mean_cells_total by blast
  from a b show "\<exists>v. bind_e (mean_cells (map sst (filter (\<lambda>r. date_year r = k) df))) (\<lambda>a.
         bind_e (mean_cells (map sss (filter (\<lambda>r. date_year r = k) df))) (\<lambda>b.
         Inr (k, a, b))) = Inr v"
    by simp
qed

lemma filter_turtle_data_total:
  assumes "\<forall>r \<in> set df. \<not> is_str (date_year r)"
  shows "\<exists>t. filter_turtle_data df y = Inr t"
proof -
  let ?rs = "filter (\<lambda>r. cell_ge (date_year r) y) df"
  have g: "ge_scalar (map date_year df) y = Inr (map (\<lambda>c. cell_ge c y) (map date_year df))"
    using assms unfolding ge_scalar_def by auto
  have rows: "mask_rows (map (\<lambda>c. cell_ge c y) (map date_year df)) df = ?rs"
    by (simp only: mask_rows_map2)
  have "\<forall>r \<in> set ?rs. is_number (date_year r)"
    by (auto simp: cell_ge_Num)
  then obtain ys where "collect (map (\<lambda>r. astype_int (date_year r)) ?rs) = Inr ys"
    using collect_astype_int by blast
  with g rows show ?thesis
    unfolding filter_turtle_data_def by simp
qed

lemma filter_turtle_data_text_year:
  assumes "r \<in> set df" and "is_str (date_year r)"
  shows "filter_turtle_data df y = Inl TypeError"
proof -
  from assms have "\<exists>c \<in> set (map date_year df). is_str c" by auto
  then have "ge_scalar (map date_year df) y = Inl TypeError"
    unfolding ge_scalar_def by simp
  then show ?thesis by (simp add: filter_turtle_data_def)
qed

lemma category_counts_text_year:
  assumes "r \<in> set df" and "is_str (date_year r)"
  shows "category_counts srt df field = Inl TypeError"
proof -
  from assms have "\<exists>c \<in> set (map date_year df). is_str c" by auto
  then have "ge_scalar (map date_year df) 2000 = Inl TypeError"
    unfolding ge_scalar_def by simp
  then show ?thesis by (simp add: category_counts_def)
qed

lemma category_counts_total:
  assumes "\<forall>r \<in> set df. \<not> is_str (date_year r)" and "column field = Some f"
  shows "category_counts srt df field
           = Inr (filter (\<lambda>r. 1 < snd r)
                    (value_counts_series srt
                       (map f (filter (\<lambda>r. cell_ge (date_year r) 2000) df))))"
proof -
  have g: "ge_scalar (map date_year df) 2000
      = Inr (map (\<lambda>c. cell_ge c 2000) (map date_year df))"
    using assms(1) unfolding ge_scalar_def by auto
  have rows: "mask_rows (map (\<lambda>c. cell_ge c 2000) (map date_year df)) df
      = filter (\<lambda>r. cell_ge (date_year r) 2000) df"
    by (simp only: mask_rows_map2)
  from g rows assms(2) show ?thesis
    unfolding category_counts_def by simp
qed

lemma category_counts_no_column:
  assumes "\<forall>r \<in> set df. \<not> is_str (date_year r)" and "column field = None"
  shows "category_counts srt df field = Inl KeyError"
proof -
  have "ge_scalar (map date_year df) 2000
      = Inr (map (\<lambda>c. cell_ge c 2000) (map date_year df))"
    using assms(1) unfolding ge_scalar_def by auto
  with assms(2) show ?thesis
    unfolding category_counts_def by simp
qed

lemma count_list_pos: "0 < count_list xs k \<longleftrightarrow> k \<in> set xs"
  by (induction xs) auto

lemma yearly_counts_2019:
  assumes "desc_sort srt"
  shows "(Num 2019, c) \<in> set (filter (\<lambda>r. 1 < snd r \<and> cell_ge (fst r) 1990)
                (sort_key fst (value_counts_frame srt col)))
           \<longleftrightarrow> 1 < c \<and> c = count_list col (Num 2019)"
proof
  assume "(Num 2019, c) \<in> set (filter (\<lambda>r. 1 < snd r \<and> cell_ge (fst r) 1990)
                (sort_key fst (value_counts_frame srt col)))"
  then have "1 < c" and "(Num 2019, c) \<in> set (value_counts_frame srt col)"
    by simp_all
  then show "1 < c \<and> c = count_list col (Num 2019)"
    by (simp add: value_counts_frame_mem [OF assms])
next
  assume a: "1 < c \<and> c = count_list col (Num 2019)"
  then have "0 < count_list col (Num 2019)" by simp
  then have "Num 2019 \<in> set col" by (simp only: count_list_pos)
  with a have "(Num 2019, c) \<in> set (value_counts_frame srt col)"
    by (simp add: value_counts_frame_mem [OF assms])
  with a show "(Num 2019, c) \<in> set (filter (\<lambda>r. 1 < snd r \<and> cell_ge (fst r) 1990)
                (sort_key fst (value_counts_frame srt col)))"
    by simp
qed

lemma filter_fst_nonempty:
  "filter (\<lambda>r. fst r = k) t \<noteq> [] \<longleftrightarrow> (\<exists>c. (k, c) \<in> set t)"
  by (induction t) auto

lemma turtle_population_plot_returns:
  assumes "desc_sort srt" and "\<forall>r \<in> set df. \<not> is_str (date_year r)"
  shows "(\<exists>fig. turtle_population_plot srt df = Inr fig)
           \<longleftrightarrow> 1 < length (filter (\<lambda>r. date_year r = Num 2019) df)"
proof -
  define out where "out = filter (\<lambda>r. 1 < snd r \<and> cell_ge (fst r) 1990)
                (sort_key fst (value_counts_frame srt (map date_year df)))"
  have yc: "yearly_counts srt df = Inr out"
    unfolding out_def using assms by (rule yearly_counts_total)
  have "(\<exists>fig. turtle_population_plot srt df = Inr fig)
      \<longleftrightarrow> filter (\<lambda>r. fst r = Num 2019) out \<noteq> []"
    unfolding turtle_population_plot_def yc by (simp split: list.split)
  also have "\<dots> \<longleftrightarrow> (\<exists>c. (Num 2019, c) \<in> set out)"
    by (rule filter_fst_nonempty)
  also have "\<dots> \<longleftrightarrow> (\<exists>c. 1 < c \<and> c = count_list (map date_year df) (Num 2019))"
    unfolding out_def by (simp only: yearly_counts_2019 [OF assms(1)])
  also have "\<dots> \<longleftrightarrow> 1 < count_list (map date_year df) (Num 2019)"
    by blast
  also have "\<dots> \<longleftrightarrow> 1 < length (filter (\<lambda>r. date_year r = Num 2019) df)"
    by (simp only: count_list_map)
  finally show ?thesis .
qed

lemma turtle_population_plot_error:
  assumes "desc_sort srt" and "\<forall>r \<in> set df. \<not> is_str (date_year r)"
    and "turtle_population_plot srt df = Inl e"
  shows "e = IndexError"
proof -
  from yearly_counts_total [OF assms(1,2)] obtain out where "yearly_counts srt df = Inr out"
    by blast
  with assms(3) show ?thesis
    unfolding turtle_population_plot_def by (simp split: list.splits)
qed

lemma well_typed_year: "well_typed df \<Longrightarrow> \<forall>r \<in> set df. \<not> is_str (date_year r)"
  by (simp add: well_typed_def)

lemma well_typed_measures:
  "well_typed df \<Longrightarrow> \<forall>r \<in> set df. \<not> is_str (sst r) \<and> \<not> is_str (sss r)"
  by (simp add: well_typed_def)

lemma collect_Inl:
  assumes "k \<in> set ks" and "g k = Inl e"
  shows "\<exists>e'. collect (map g ks) = Inl e'"
  using assms
proof (induction ks)
  case Nil
  then show ?case by simp
next
  case (Cons a ks)
  show ?case
  proof (cases "g a")
    case (Inl e0)
    then show ?thesis by simp
  next
    case (Inr v)
    with Cons.prems have "k \<in> set ks" by auto
    from Cons.IH [OF this Cons.prems(2)] obtain e' where "collect (map g ks) = Inl e'"
      by blast
    with Inr show ?thesis by simp
  qed
qed

lemma collect_Inl_D:
  assumes "collect (map g ks) = Inl e"
  shows "\<exists>k \<in> set ks. g k = Inl e"
  using assms
proof (induction ks)
  case Nil
  then show ?case by simp
next
  case (Cons a ks)
  show ?case
  proof (cases "g a")
    case (Inl e0)
    with Cons.prems show ?thesis by simp
  next
    case (Inr v)
    with Cons.prems have "collect (map g ks) = Inl e"
      by (cases "collect (map g ks)") simp_all
    from Cons.IH [OF this] show ?thesis by auto
  qed
qed

lemma mean_cells_error: "mean_cells vs = Inl e \<Longrightarrow> e = TypeError"
  by (auto simp: mean_cells_def split: if_splits list.splits)

lemma mean_cells_text: "v \<in> set vs \<Longrightarrow> is_str v \<Longrightarrow> mean_cells vs = Inl TypeError"
  by (auto simp: mean_cells_def)

lemma yearly_means_error:
  assumes "yearly_means df = Inl e"
  shows "e = TypeError"
proof -
  from assms collect_Inl_D obtain k
    where "bind_e (mean_cells (map sst (filter (\<lambda>r. date_year r = k) df))) (\<lambda>a.
         bind_e (mean_cells (map sss (filter (\<lambda>r. date_year r = k) df))) (\<lambda>b.
         Inr (k, a, b))) = Inl e"
    unfolding yearly_means_def by fast
  then show ?thesis
    by (cases "mean_cells (map sst (filter (\<lambda>r. date_year r = k) df))";
        cases "mean_cells (map sss (filter (\<lambda>r. date_year r = k) df))")
       (auto dest: mean_cells_error)
qed

lemma yearly_means_text_measure:
  assumes "r \<in> set df" and "\<not> isna (date_year r)" and "is_str (sst r) \<or> is_str (sss r)"
  shows "yearly_means df = Inl TypeError"
proof -
  let ?k = "date_year r"
  let ?g = "\<lambda>k. bind_e (mean_cells (map sst (filter (\<lambda>r. date_year r = k) df))) (\<lambda>a.
         bind_e (mean_cells (map sss (filter (\<lambda>r. date_year r = k) df))) (\<lambda>b.
         Inr (k, a, b)))"
  from assms(1,2) have k: "?k \<in> set (groupby_keys (map date_year df))"
    by (simp add: set_groupby_keys)
  have "\<exists>e. ?g ?k = Inl e"
  proof (cases "is_str (sst r)")
    case True
    with assms(1) have "mean_cells (map sst (filter (\<lambda>r'. date_year r' = ?k) df)) = Inl TypeError"
      by (intro mean_cells_text [of "sst r"]) auto
    then show ?thesis by simp
  next
    case False
    with assms(3) have "is_str (sss r)" by simp
    with assms(1) have "mean_cells (map sss (filter (\<lambda>r'. date_year r' = ?k) df)) = Inl TypeError"
      by (intro mean_cells_text [of "sss r"]) auto
    then show ?thesis
      by (cases "mean_cells (map sst (filter (\<lambda>r'. date_year r' = ?k) df))") simp_all
  qed
  then obtain e where ge: "?g ?k = Inl e" by blast
  from collect_Inl [where g = ?g and k = ?k, OF k ge]
  obtain e' where e': "yearly_means df = Inl e'"
    unfolding yearly_means_def by blast
  with yearly_means_error show ?thesis by blast
qed

text \<open>
  C4, as amended. On a dataset whose years and measurements are numbers or missing, the
  four tables are computed without an exception, whatever the threshold, and an empty
  dataset gives empty tables. The program has no \<^verbatim>\<open>InvalidInput\<close> error. A field that is
  no column raises \<^verbatim>\<open>KeyError\<close>. A year that is text raises \<^verbatim>\<open>TypeError\<close> in
  \<open>yearly_counts\<close>, \<open>category_counts\<close> and \<^verbatim>\<open>filter_turtle_data\<close>. A measurement that is
  text, in a record that has a year, raises \<^verbatim>\<open>TypeError\<close> in \<open>yearly_means\<close>. After its
  table, \<^verbatim>\<open>turtle_population_plot\<close> reads the count of the year 2019 for an annotation: it
  returns when the dataset has at least two records of 2019 and raises \<^verbatim>\<open>IndexError\<close>
  otherwise, as on an empty dataset.
\<close>

theorem transforms_return:
  assumes "desc_sort srt"
  shows "(well_typed df \<longrightarrow>
            (\<exists>t. yearly_counts srt df = Inr t)
            \<and> (\<exists>t. yearly_means df = Inr t)
            \<and> (\<exists>t. filter_turtle_data df y = Inr t)
            \<and> (column field \<noteq> None \<longrightarrow> (\<exists>t. category_counts srt df field = Inr t))
            \<and> (column field = None \<longrightarrow> category_counts srt df field = Inl KeyError)
            \<and> ((\<exists>fig. turtle_population_plot srt df = Inr fig)
                 \<longleftrightarrow> 1 < length (filter (\<lambda>r. date_year r = Num 2019) df))
            \<and> (\<forall>e. turtle_population_plot srt df = Inl e \<longrightarrow> e = IndexError))
         \<and> yearly_counts srt [] = Inr [] \<and> yearly_means [] = Inr []
         \<and> filter_turtle_data [] y = Inr []
         \<and> (column field \<noteq> None \<longrightarrow> category_counts srt [] field = Inr [])
         \<and> ((\<exists>r \<in> set df. is_str (date_year r)) \<longrightarrow>
               yearly_counts srt df = Inl TypeError
               \<and> filter_turtle_data df y = Inl TypeError
               \<and> category_counts srt df field = Inl TypeError)
         \<and> ((\<exists>r \<in> set df. \<not> isna (date_year r) \<and> (is_str (sst r) \<or> is_str (sss r))) \<longrightarrow>
               yearly_means df = Inl TypeError)"
proof -
  have typed: "(\<exists>t. yearly_counts srt df = Inr t)
            \<and> (\<exists>t. yearly_means df = Inr t)
            \<and> (\<exists>t. filter_turtle_data df y = Inr t)
            \<and> (column field \<noteq> None \<longrightarrow> (\<exists>t. category_counts srt df field = Inr t))
            \<and> (column field = None \<longrightarrow> category_counts srt df field = Inl KeyError)
            \<and> ((\<exists>fig. turtle_population_plot srt df = Inr fig)
                 \<longleftrightarrow> 1 < length (filter (\<lambda>r. date_year r = Num 2019) df))
            \<and> (\<forall>e. turtle_population_plot srt df = Inl e \<longrightarrow> e = IndexError)"
    if wt: "well_typed df"
  proof -
    note yr = well_typed_year [OF wt]
    have 1: "\<exists>t. yearly_counts srt df = Inr t"
      using yearly_counts_total [OF assms yr] by blast
    have 2: "\<exists>t. yearly_means df = Inr t"
      using well_typed_measures [OF wt] by (rule yearly_means_total)
    have 3: "\<exists>t. filter_turtle_data df y = Inr t"
      using yr by (rule filter_turtle_data_total)
    have 4: "column field \<noteq> None \<longrightarrow> (\<exists>t. category_counts srt df field = Inr t)"
      using category_counts_total [OF yr] by blast
    have 5: "column field = None \<longrightarrow> category_counts srt df field = Inl KeyError"
      using category_counts_no_column [OF yr] by blast
    have 6: "(\<exists>fig. turtle_population_plot srt df = Inr fig)
                 \<longleftrightarrow> 1 < length (filter (\<lambda>r. date_year r = Num 2019) df)"
      using assms yr by (rule turtle_population_plot_returns)
    have 7: "\<forall>e. turtle_population_plot srt df = Inl e \<longrightarrow> e = IndexError"
      using turtle_population_plot_error [OF assms yr] by blast
    from 1 2 3 4 5 6 7 show ?thesis by blast
  qed
  have e1: "yearly_counts srt [] = Inr []"
    using yearly_counts_total [OF assms, of "[]"]
    by (simp add: value_counts_frame_def groupby_keys_def dropna_def desc_sort_Nil [OF assms])
  have e2: "yearly_means [] = Inr []"
    by (simp add: yearly_means_def groupby_keys_def dropna_def)
  have e3: "filter_turtle_data [] y = Inr []"
    by (simp add: filter_turtle_data_def ge_scalar_def mask_rows_def)
  have e4: "column field \<noteq> None \<longrightarrow> category_counts srt [] field = Inr []"
    using category_counts_total [of "[]" field _ srt]
    by (auto simp: value_counts_series_def unique_def dropna_def desc_sort_Nil [OF assms])
  have strs: "yearly_counts srt df = Inl TypeError
               \<and> filter_turtle_data df y = Inl TypeError
               \<and> category_counts srt df field = Inl TypeError"
    if "\<exists>r \<in> set df. is_str (date_year r)"
  proof -
    from that obtain r where r: "r \<in> set df" "is_str (date_year r)" by blast
    from yearly_counts_text_year [OF assms r] filter_turtle_data_text_year [OF r]
      category_counts_text_year [OF r]
    show ?thesis by blast
  qed
  have meas: "yearly_means df = Inl TypeError"
    if "\<exists>r \<in> set df. \<not> isna (date_year r) \<and> (is_str (sst r) \<or> is_str (sss r))"
    using that yearly_means_text_measure by blast
  from typed e1 e2 e3 e4 strs meas show ?thesis by blast
qed

theorem transforms_return_witness:
  "desc_sort sort_desc_stable \<and> well_typed ex_2019
   \<and> (\<exists>t. yearly_counts sort_desc_stable ex_2019 = Inr t)
   \<and> (\<exists>t. yearly_means ex_2019 = Inr t)
   \<and> (\<exists>t. filter_turtle_data ex_2019 2000 = Inr t)
   \<and> category_counts sort_desc_stable ex_2019 ''species'' = Inl KeyError
   \<and> (\<exists>fig. turtle_population_plot sort_desc_stable ex_2019 = Inr fig)
   \<and> (\<exists>r \<in> set ex_text_year. is_str (date_year r))
   \<and> filter_turtle_data ex_text_year 2000 = Inl TypeError
   \<and> (\<exists>r \<in> set ex_text_sst. \<not> isna (date_year r) \<and> (is_str (sst r) \<or> is_str (sss r)))
   \<and> yearly_means ex_text_sst = Inl TypeError"
proof -
  have wt: "well_typed ex_2019" by code_simp
  have col: "column ''species'' = None" by code_simp
  have n: "1 < length (filter (\<lambda>r. date_year r = Num 2019) ex_2019)" by code_simp
  have tx: "\<exists>r \<in> set ex_text_year. is_str (date_year r)" by code_simp
  from transforms_return [OF desc_sort_stable, of ex_2019 2000 "''species''"] wt col n
  have a: "(\<exists>t. yearly_counts sort_desc_stable ex_2019 = Inr t)
     \<and> (\<exists>t. yearly_means ex_2019 = Inr t)
     \<and> (\<exists>t. filter_turtle_data ex_2019 2000 = Inr t)
     \<and> category_counts sort_desc_stable ex_2019 ''species'' = Inl KeyError
     \<and> (\<exists>fig. turtle_population_plot sort_desc_stable ex_2019 = Inr fig)"
    by blast
  from transforms_return [OF desc_sort_stable, of ex_text_year 2000 "''species''"] tx
  have b: "filter_turtle_data ex_text_year 2000 = Inl TypeError"
    by blast
  have ts: "\<exists>r \<in> set ex_text_sst. \<not> isna (date_year r) \<and> (is_str (sst r) \<or> is_str (sss r))"
    by code_simp
  from transforms_return [OF desc_sort_stable, of ex_text_sst 2000 "''species''"] ts
  have c: "yearly_means ex_text_sst = Inl TypeError"
    by blast
  from a b c wt tx ts desc_sort_stable show ?thesis by blast
qed

text \<open>
  The claim as the specification states it fails on the empty dataset, on which
  \<^verbatim>\<open>turtle_population_plot\<close> raises \<^verbatim>\<open>IndexError\<close>, and on a dataset with a measurement
  that is text (as \<^verbatim>\<open>fillna("NA")\<close> leaves a missing one), on which \<open>yearly_means\<close> raises
  \<^verbatim>\<open>TypeError\<close>; and the errors of malformed input are of two kinds, neither of them
  \<^verbatim>\<open>InvalidInput\<close>.
\<close>

theorem turtle_population_plot_empty_dataset:
  "turtle_population_plot sort_desc_stable [] = Inl IndexError
   \<and> category_counts sort_desc_stable [] ''species'' = Inl KeyError
   \<and> filter_turtle_data ex_text_year 2000 = Inl TypeError
   \<and> yearly_means ex_text_sst = Inl TypeError"
  by code_simp

lemma fillna_column:
  assumes "column field = Some f"
  shows "f (fillna_row r) = fillna_cell (f r)"
  using assms by (auto simp: column_def fillna_row_def split: if_splits)

lemma cell_ge_fillna: "cell_ge (fillna_cell c) y = cell_ge c y"
  by (cases c) (simp_all add: fillna_cell_def)

lemma fillna_cell_NA: "fillna_cell c = Str ''NA'' \<longleftrightarrow> isna c \<or> c = Str ''NA''"
  by (cases c) (simp_all add: fillna_cell_def)

lemma fillna_year_filter:
  "filter (\<lambda>r. cell_ge (date_year r) y) (fillna df)
     = map fillna_row (filter (\<lambda>r. cell_ge (date_year r) y) df)"
  by (induction df) (simp_all add: fillna_def fillna_row_def cell_ge_fillna)

lemma fillna_no_text_year:
  assumes "\<forall>r \<in> set df. is_number (date_year r)"
  shows "\<forall>r \<in> set (fillna df). \<not> is_str (date_year r)"
proof
  fix r assume "r \<in> set (fillna df)"
  then obtain r0 where r0: "r0 \<in> set df" and r: "r = fillna_row r0"
    by (auto simp: fillna_def)
  from assms r0 have "is_number (date_year r0)" by blast
  then show "\<not> is_str (date_year r)"
    unfolding r by (cases "date_year r0") (simp_all add: fillna_row_def fillna_cell_def)
qed

lemma length_filter_le_mono:
  assumes "\<And>x. P x \<Longrightarrow> Q x"
  shows "length (filter P xs) \<le> length (filter Q xs)"
  using assms by (induction xs) auto

text \<open>
  The second line of \<^verbatim>\<open>load_data\<close> and \<^verbatim>\<open>pie_plot\<close> do count missing categories under
  \<^verbatim>\<open>"NA"\<close>: on rows that all have a numeric year, \<^verbatim>\<open>fillna("NA")\<close> followed by
  \<open>category_counts\<close> gives a row labelled \<^verbatim>\<open>"NA"\<close> whose count is the number of the records
  of 2000 or later whose category is missing (or is the text \<^verbatim>\<open>"NA"\<close> already), when
  there are at least two.
\<close>

lemma category_counts_after_fillna:
  assumes "desc_sort srt" and "\<forall>r \<in> set df. is_number (date_year r)"
    and "column field = Some f"
    and "2 \<le> length (filter (\<lambda>r. cell_ge (date_year r) 2000 \<and> isna (f r)) df)"
  shows "\<exists>out. category_counts srt (fillna df) field = Inr out
           \<and> (Str ''NA'', length (filter (\<lambda>r. cell_ge (date_year r) 2000
                                     \<and> (isna (f r) \<or> f r = Str ''NA'')) df)) \<in> set out"
proof -
  let ?n = "length (filter (\<lambda>r. cell_ge (date_year r) 2000
                                     \<and> (isna (f r) \<or> f r = Str ''NA'')) df)"
  let ?col = "map f (filter (\<lambda>r. cell_ge (date_year r) 2000) (fillna df))"
  let ?out = "filter (\<lambda>r. 1 < snd r) (value_counts_series srt ?col)"
  have cc: "category_counts srt (fillna df) field = Inr ?out"
    using fillna_no_text_year [OF assms(2)] assms(3) by (rule category_counts_total)
  have col: "?col = map (\<lambda>r. fillna_cell (f r)) (filter (\<lambda>r. cell_ge (date_year r) 2000) df)"
    by (simp add: fillna_year_filter fillna_column [OF assms(3)] comp_def)
  have "count_list ?col (Str ''NA'')
      = length (filter (\<lambda>r. fillna_cell (f r) = Str ''NA'')
          (filter (\<lambda>r. cell_ge (date_year r) 2000) df))"
    unfolding col by (rule count_list_map)
  also have "\<dots> = ?n"
    by (simp add: fillna_cell_NA conj_commute)
  finally have cnt: "count_list ?col (Str ''NA'') = ?n" .
  have "length (filter (\<lambda>r. cell_ge (date_year r) 2000 \<and> isna (f r)) df) \<le> ?n"
    by (rule length_filter_le_mono) blast
  with assms(4) have n2: "2 \<le> ?n" by simp
  with cnt have "0 < count_list ?col (Str ''NA'')" by linarith
  then have "Str ''NA'' \<in> set ?col" by (simp only: count_list_pos)
  then have "(Str ''NA'', ?n) \<in> set (value_counts_series srt ?col)"
    by (simp add: value_counts_series_mem [OF assms(1)] cnt)
  with n2 have "(Str ''NA'', ?n) \<in> set ?out" by simp
  with cc show ?thesis by blast
qed

lemma category_counts_after_fillna_example:
  "desc_sort sort_desc_stable
   \<and> column ''waterBody'' = Some waterBody
   \<and> category_counts sort_desc_stable (fillna ex_null_category) ''waterBody''
       = Inr [(Str ''NA'', 2)]
   \<and> length (filter (\<lambda>r. cell_ge (date_year r) 2000
                \<and> (isna (waterBody r) \<or> waterBody r = Str ''NA'')) ex_null_category) = 2"
proof -
  have yrs: "\<forall>r \<in> set ex_null_category. is_number (date_year r)" by code_simp
  have col: "column ''waterBody'' = Some waterBody" by (simp add: column_def)
  have two: "2 \<le> length (filter (\<lambda>r. cell_ge (date_year r) 2000 \<and> isna (waterBody r))
                          ex_null_category)"
    by code_simp
  have n: "length (filter (\<lambda>r. cell_ge (date_year r) 2000
                \<and> (isna (waterBody r) \<or> waterBody r = Str ''NA'')) ex_null_category) = 2"
    by code_simp
  have h: "category_counts sort_desc_stable (fillna ex_null_category) ''waterBody''
       = Inr [(Str ''NA'', 2)]"
    by code_simp
  from category_counts_after_fillna [OF desc_sort_stable yrs col two] h n col desc_sort_stable
  show ?thesis by blast
qed

text \<open>
  Whatever the library's sort of the counts does with equal counts, the table of
  \<open>category_counts\<close> is in descending order of count and names no category twice.
\<close>

lemma category_counts_descending:
  assumes "desc_sort srt" and "category_counts srt df field = Inr out"
  shows "sorted_wrt (\<lambda>a b. snd b \<le> snd a) out \<and> distinct (map fst out)"
proof -
  from category_counts_Inr [OF assms(2)] obtain f
    where out: "out = filter (\<lambda>r. 1 < snd r)
                (value_counts_series srt
                   (map f (filter (\<lambda>r. cell_ge (date_year r) 2000) df)))"
    by blast
  let ?col = "map f (filter (\<lambda>r. cell_ge (date_year r) 2000) df)"
  have "sorted_wrt (\<lambda>a b. snd b \<le> snd a) (value_counts_series srt ?col)"
    using assms(1) by (simp add: value_counts_series_def desc_sort_def)
  then have s: "sorted_wrt (\<lambda>a b. snd b \<le> snd a) out"
    unfolding out by (rule sorted_wrt_filter)
  have "distinct (map fst (value_counts_series srt ?col))"
    using assms(1)
    by (simp add: value_counts_series_def desc_sort_distinct comp_def distinct_unique)
  then have "distinct (map fst out)"
    unfolding out by (rule distinct_map_filter)
  with s show ?thesis by simp
qed

lemma those_replicate: "those (replicate n (Some x)) = Some (replicate n x)"
  by (induction n) simp_all

lemma loc_label_nat: "loc_label (Suc n) (Num (of_nat n)) = Some n"
  by simp

lemma load_data_replicate:
  assumes "date_year a = Num (of_nat n)" and "isna (date_year b)"
  shows "load_data (replicate n a @ [b]) = Inr (replicate n (fillna_row b))"
proof -
  let ?csv = "replicate n a @ [b]"
  have "dropna (map date_year ?csv) = replicate n (Num (of_nat n))"
    using assms by (simp add: dropna_def)
  then have "map (loc_label (length ?csv)) (dropna (map date_year ?csv))
      = replicate n (Some n)"
    by (simp only: length_append length_replicate list.size add_Suc_right add_0_right
        map_replicate loc_label_nat)
  then have "those (map (loc_label (length ?csv)) (dropna (map date_year ?csv)))
      = Some (replicate n n)"
    by (simp only: those_replicate)
  moreover have "map (\<lambda>i. ?csv ! i) (replicate n n) = replicate n b"
    by (simp add: nth_append)
  ultimately show ?thesis
    unfolding load_data_def by (simp add: fillna_def)
qed

lemma yearly_means_no_null_year:
  assumes "yearly_means df = Inr out" and "(k, a, b) \<in> set out"
  shows "\<not> isna k"
  using yearly_means_Inr [OF assms] by (simp add: set_groupby_keys)

text \<open>
  C2. \<^verbatim>\<open>load_data\<close> means to drop the records that have no year, and selects rows by label
  instead. For the CSV file of two lines it returns the record that has no year, with
  \<^verbatim>\<open>"NA"\<close> for its year, and the table of \<open>yearly_means\<close> has a row for it. For the file of
  2006 lines, with ordinary years, it returns 2005 copies of the one record that has no
  year. Given a missing year directly, the tables leave it out
  (\<open>yearly_means_no_null_year\<close>): the fault is in the loading.
\<close>

theorem load_data_keeps_null_year:
  "load_data ex_csv = Inr [fillna_row (blank\<lparr>sst := Num 26, sss := Num 36\<rparr>)]
   \<and> bind_e (load_data ex_csv) yearly_means = Inr [(Str ''NA'', Num 26, Num 36)]
   \<and> load_data ex_csv_2005
       = Inr (replicate 2005 (fillna_row (blank\<lparr>sst := Num 26, sss := Num 36\<rparr>)))
   \<and> date_year (fillna_row (blank\<lparr>sst := Num 26, sss := Num 36\<rparr>)) = Str ''NA''"
proof -
  have small: "load_data ex_csv = Inr [fillna_row (blank\<lparr>sst := Num 26, sss := Num 36\<rparr>)]
      \<and> bind_e (load_data ex_csv) yearly_means = Inr [(Str ''NA'', Num 26, Num 36)]"
    by code_simp
  have a: "date_year (blank\<lparr>date_year := Num 2005, sst := Num 25, sss := Num 35\<rparr>)
      = Num (of_nat 2005)"
    by simp
  have b: "isna (date_year (blank\<lparr>sst := Num 26, sss := Num 36\<rparr>))"
    by (simp add: blank_def)
  have na: "date_year (fillna_row (blank\<lparr>sst := Num 26, sss := Num 36\<rparr>)) = Str ''NA''"
    by (simp add: blank_def fillna_row_def fillna_cell_def)
  from load_data_replicate [OF a b] have "load_data ex_csv_2005
       = Inr (replicate 2005 (fillna_row (blank\<lparr>sst := Num 26, sss := Num 36\<rparr>)))"
    by (simp add: ex_csv_2005_def)
  with small na show ?thesis by blast
qed

text \<open>
  C10. The claim is about the dataset as loaded, and \<^verbatim>\<open>load_data\<close> does not hand it on.
  A file of four lines, two of them of 2000 or later with no water body, makes
  \<^verbatim>\<open>load_data\<close> raise \<^verbatim>\<open>KeyError\<close>: its years are no row labels. In the file of 2006
  lines, where 2005 records of the year 2005 have no water body, \<^verbatim>\<open>load_data\<close> returns
  2005 copies of the record that has no year, and the query of \<^verbatim>\<open>pie_plot\<close> raises
  \<^verbatim>\<open>TypeError\<close> on the year \<^verbatim>\<open>"NA"\<close>. Neither gives a row labelled \<^verbatim>\<open>"NA"\<close>.
\<close>

theorem load_data_loses_null_categories:
  "2 \<le> length (filter (\<lambda>r. cell_ge (date_year r) 2000 \<and> isna (waterBody r)) ex_null_category)
   \<and> bind_e (load_data ex_null_category)
         (\<lambda>df. category_counts sort_desc_stable df ''waterBody'') = Inl KeyError
   \<and> bind_e (load_data ex_csv_null_category)
         (\<lambda>df. category_counts sort_desc_stable df ''waterBody'') = Inl TypeError"
proof -
  have small: "2 \<le> length (filter (\<lambda>r. cell_ge (date_year r) 2000 \<and> isna (waterBody r))
                            ex_null_category)
      \<and> bind_e (load_data ex_null_category)
            (\<lambda>df. category_counts sort_desc_stable df ''waterBody'') = Inl KeyError"
    by code_simp
  let ?b = "blank\<lparr>waterBody := Str ''Pacific''\<rparr>"
  have a: "date_year (blank\<lparr>date_year := Num 2005\<rparr>) = Num (of_nat 2005)"
    by simp
  have b: "isna (date_year ?b)"
    by (simp add: blank_def)
  from load_data_replicate [OF a b]
  have ld: "load_data ex_csv_null_category = Inr (replicate 2005 (fillna_row ?b))"
    by (simp add: ex_csv_null_category_def)
  have mem: "fillna_row ?b \<in> set (replicate 2005 (fillna_row ?b))"
    by simp
  have "is_str (date_year (fillna_row ?b))"
    by (simp add: blank_def fillna_row_def fillna_cell_def)
  from category_counts_text_year [OF mem this]
  have "category_counts sort_desc_stable (replicate 2005 (fillna_row ?b)) ''waterBody''
      = Inl TypeError" .
  with ld have "bind_e (load_data ex_csv_null_category)
         (\<lambda>df. category_counts sort_desc_stable df ''waterBody'') = Inl TypeError"
    by simp
  with small show ?thesis by blast
qed

end
